theory Spec2Isabelle
  imports Complex_Main "HOL-Library.List_Lexorder" "HOL-Library.Product_Lexorder"
    "HOL-Library.Monad_Syntax"
begin

section \<open>Strings\<close>

text \<open>
  The program is \<^verbatim>\<open>src/app.py\<close>. A Python \<^verbatim>\<open>str\<close> is a sequence of Unicode code
  points, compared for equality code point by code point and ordered lexicographically
  by code point. It is modelled as a list of natural numbers; the lexicographic order on
  lists is the order Python's \<^verbatim>\<open><\<close> gives on \<^verbatim>\<open>str\<close>. Every literal of the source that
  is not ASCII is written here by its code points, with the line of the source it comes
  from and an English gloss.
\<close>

type_synonym ustring = "nat list"

definition Income :: ustring where
  \<comment> \<open>lines 49, 79, 127: U+6536 U+5165, "income"\<close>
  "Income = [0x6536, 0x5165]"

definition Expense :: ustring where
  \<comment> \<open>lines 53, 79, 87, 128, 135: U+652F U+51FA, "expense"\<close>
  "Expense = [0x652F, 0x51FA]"

definition Connie :: ustring where
  \<comment> \<open>line 47: the ASCII name Connie\<close>
  "Connie = [0x43, 0x6F, 0x6E, 0x6E, 0x69, 0x65]"

definition Kam :: ustring where
  \<comment> \<open>line 47: the ASCII name Kam\<close>
  "Kam = [0x4B, 0x61, 0x6D]"

definition Xiqing :: ustring where
  \<comment> \<open>lines 47, 87: U+66E6 U+6674, the first child\<close>
  "Xiqing = [0x66E6, 0x6674]"

definition Xilang :: ustring where
  \<comment> \<open>lines 47, 87: U+66E6 U+6717, the second child\<close>
  "Xilang = [0x66E6, 0x6717]"

definition Children :: ustring where
  \<comment> \<open>lines 56, 87, 88: U+5C0F U+670B U+53CB U+652F U+51FA, "children's expenses"\<close>
  "Children = [0x5C0F, 0x670B, 0x53CB, 0x652F, 0x51FA]"

section \<open>Members and the category table (lines 47 to 60)\<close>

definition MEMBERS :: "ustring list" where
  "MEMBERS = [Connie, Kam, Xiqing, Xilang]"

text \<open>
  \<^verbatim>\<open>CATEGORIES\<close> is a dict of dicts of lists. Python dicts keep insertion order and
  line 85 reads the keys in that order, so the table is an association list of
  association lists, in the order of the literal. The strings are those of the source,
  code point by code point.
\<close>

definition CATEGORIES :: "(ustring \<times> (ustring \<times> ustring list) list) list" where
  "CATEGORIES =
    [([0x6536, 0x5165],
        [([0x85AA, 0x91D1], [[0x6BCF, 0x6708, 0x85AA, 0x91D1]]),
         ([0x5176, 0x4ED6],
            [[0x82B1, 0x7D05], [0x6295, 0x8CC7, 0x56DE, 0x5831],
             [0x5176, 0x4ED6, 0x6536, 0x5165]])]),
     ([0x652F, 0x51FA],
        [([0x5BB6, 0x5EAD, 0x652F, 0x51FA],
            [[0x4F9B, 0x6A13], [0x7BA1, 0x7406, 0x8CBB], [0x6C34, 0x8CBB], [0x96FB, 0x8CBB],
             [0x7164, 0x6C23, 0x8CBB], [0x96FB, 0x8A71, 0x8CBB], [0x4E0A, 0x7DB2, 0x8CBB],
             [0x4E32, 0x6D41, 0x5E73, 0x53F0], [0x5DEE, 0x9909],
             [0x5916, 0x50AD, 0x85AA, 0x91D1],
             [0x5BB6, 0x5EAD, 0x65E5, 0x5E38, 0x7528, 0x54C1]]),
         ([0x500B, 0x4EBA, 0x652F, 0x51FA],
            [[0x65E9, 0x5348, 0x665A, 0x4E09, 0x9910], [0x8CFC, 0x7269], [0x5A1B, 0x6A02],
             [0x500B, 0x4EBA, 0x5176, 0x4ED6]]),
         ([0x5C0F, 0x670B, 0x53CB, 0x652F, 0x51FA],
            [[0x5B78, 0x8CBB], [0x8208, 0x8DA3, 0x73ED], [0x91AB, 0x7642],
             [0x5176, 0x4ED6, 0x8CBB, 0x7528]]),
         ([0x4EA4, 0x901A, 0x8CBB, 0x7528],
            [[0x8ECA, 0x8CBB], [0x8ECA, 0x5145, 0x96FB, 0x8CBB, 0x7528], [0x6CCA, 0x8ECA],
             [0x4EA4, 0x901A, 0x5176, 0x4ED6]]),
         ([0x5132, 0x84C4, 0x8207, 0x4FDD, 0x96AA],
            [[0x5B58, 0x6B3E], [0x4FDD, 0x96AA], [0x65C5, 0x904A, 0x57FA, 0x91D1]])])]"

section \<open>The default main category (lines 85 to 88)\<close>

text \<open>
  \<^verbatim>\<open>CATEGORIES[tx_type]\<close> raises \<^verbatim>\<open>KeyError\<close> on a missing key and \<^verbatim>\<open>list.index\<close> raises
  \<^verbatim>\<open>ValueError\<close> on a missing element; both are the value \<open>None\<close> here.
\<close>

fun index :: "'a list \<Rightarrow> 'a \<Rightarrow> nat option" where
  "index [] x = None"
| "index (y # ys) x = (if y = x then Some 0 else map_option Suc (index ys x))"

definition available_main :: "ustring \<Rightarrow> ustring list option" where
  \<comment> \<open>line 85: \<^verbatim>\<open>list(CATEGORIES[tx_type].keys())\<close>\<close>
  "available_main tx_type = map_option (map fst) (map_of CATEGORIES tx_type)"

definition default_idx :: "ustring \<Rightarrow> ustring \<Rightarrow> nat option" where
  \<comment> \<open>lines 85 to 88\<close>
  "default_idx tx_type mem =
     (case available_main tx_type of
        None \<Rightarrow> None
      | Some am \<Rightarrow>
          if tx_type = Expense \<and> mem \<in> set [Xiqing, Xilang] \<and> Children \<in> set am
          then index am Children
          else Some 0)"

section \<open>The worksheet and the data frame (lines 35 to 44)\<close>

text \<open>
  A record of the worksheet has the seven columns of line 38 (the order of the comment
  of line 42). The date cell is a string in the worksheet; line 118 replaces the column
  by parsed timestamps, so a date cell is either of the two. The other cells are typed:
  strings for member, kind, main category, sub-category and note, a number for the
  amount. Amounts are exact rationals: sums are the exact sums, binary floating point
  rounding is not modelled.
\<close>

record date =
  year :: nat
  month :: nat
  day :: nat

datatype datecell = DateStr ustring | Timestamp date

record row =
  col_date :: datecell    \<comment> \<open>column U+65E5 U+671F, "date"\<close>
  col_member :: ustring   \<comment> \<open>column U+6210 U+54E1, "member"\<close>
  col_kind :: ustring     \<comment> \<open>column U+6536 U+652F U+985E U+578B, "income or expense"\<close>
  col_main :: ustring     \<comment> \<open>column U+4E3B U+985E U+5225, "main category"\<close>
  col_sub :: ustring      \<comment> \<open>column U+7D30 U+9805, "item"\<close>
  col_amount :: rat       \<comment> \<open>column U+91D1 U+984D, "amount"\<close>
  col_note :: ustring     \<comment> \<open>column U+5099 U+8A3B, "note"\<close>

definition COLUMNS :: "ustring list" where
  \<comment> \<open>line 38\<close>
  "COLUMNS =
     [[0x65E5, 0x671F], [0x6210, 0x54E1], [0x6536, 0x652F, 0x985E, 0x578B],
      [0x4E3B, 0x985E, 0x5225], [0x7D30, 0x9805], [0x91D1, 0x984D], [0x5099, 0x8A3B]]"

text \<open>
  The worksheet is the list of its records below the header row, in the order of the
  sheet; \<^verbatim>\<open>get_all_records\<close> returns them and \<^verbatim>\<open>append_row\<close> adds one at the end.
\<close>

type_synonym sheet = "row list"

record dataframe =
  columns :: "ustring list"
  rows :: "row list"

definition get_all_records :: "sheet \<Rightarrow> row list" where
  "get_all_records sheet = sheet"

definition DataFrame :: "row list \<Rightarrow> dataframe" where
  \<comment> \<open>\<^verbatim>\<open>pd.DataFrame(data)\<close>: the columns are the keys of the records\<close>
  "DataFrame data = \<lparr>columns = COLUMNS, rows = data\<rparr>"

definition load_df :: "sheet \<Rightarrow> dataframe" where
  \<comment> \<open>lines 35 to 39\<close>
  "load_df sheet =
     (let data = get_all_records sheet
      in if data = [] then \<lparr>columns = COLUMNS, rows = []\<rparr> else DataFrame data)"


definition df_empty :: "dataframe \<Rightarrow> bool" where
  \<comment> \<open>\<^verbatim>\<open>df.empty\<close>: an axis of length 0\<close>
  "df_empty df = (rows df = [] \<or> columns df = [])"

section \<open>The entry form (lines 79 to 106)\<close>













section \<open>The monthly report (lines 114 to 143)\<close>

text \<open>
  \<^verbatim>\<open>pd.to_datetime\<close> is the library's parser. It is a parameter \<open>parse\<close> of the model:
  what the library makes of a date string, \<open>None\<close> when it raises. A cell that is a
  timestamp already stays as it is. The call raises when one cell does.
\<close>

fun cell_date :: "(ustring \<Rightarrow> date option) \<Rightarrow> datecell \<Rightarrow> date option" where
  "cell_date parse (Timestamp d) = Some d"
| "cell_date parse (DateStr s) = parse s"

definition to_datetime :: "(ustring \<Rightarrow> date option) \<Rightarrow> datecell list \<Rightarrow> datecell list option" where
  "to_datetime parse col = those (map (\<lambda>c. map_option Timestamp (cell_date parse c)) col)"

definition set_date_column :: "row list \<Rightarrow> datecell list \<Rightarrow> row list" where
  \<comment> \<open>line 118: the assignment to the date column\<close>
  "set_date_column rs col = map2 (\<lambda>r c. r\<lparr>col_date := c\<rparr>) rs col"

fun dt_month :: "datecell \<Rightarrow> nat option" where
  \<comment> \<open>\<^verbatim>\<open>.dt.month\<close>; after line 118 every cell of the column is a timestamp\<close>
  "dt_month (Timestamp d) = Some (month d)"
| "dt_month (DateStr s) = None"

definition m_df :: "row list \<Rightarrow> nat \<Rightarrow> row list" where
  \<comment> \<open>line 122\<close>
  "m_df rs selected_month = filter (\<lambda>r. dt_month (col_date r) = Some selected_month) rs"

definition inc_total :: "row list \<Rightarrow> rat" where
  \<comment> \<open>line 127, \<^verbatim>\<open>inc\<close>\<close>
  "inc_total m = sum_list (map col_amount (filter (\<lambda>r. col_kind r = Income) m))"

definition exp_total :: "row list \<Rightarrow> rat" where
  \<comment> \<open>line 128, \<^verbatim>\<open>exp\<close>\<close>
  "exp_total m = sum_list (map col_amount (filter (\<lambda>r. col_kind r = Expense) m))"

definition exp_df :: "row list \<Rightarrow> row list" where
  \<comment> \<open>line 135\<close>
  "exp_df m = filter (\<lambda>r. col_kind r = Expense) m"

text \<open>
  \<^verbatim>\<open>groupby\<close> on main category, item and member, with its default \<^verbatim>\<open>sort=True\<close>: one
  line per key that occurs, the keys in ascending order (lexicographic on the triple,
  each string by code points), with the sum of the amounts of the key's rows.
\<close>

type_synonym group = "ustring \<times> ustring \<times> ustring"

definition group_key :: "row \<Rightarrow> group" where
  "group_key r = (col_main r, col_sub r, col_member r)"

definition summary :: "row list \<Rightarrow> (group \<times> rat) list" where
  \<comment> \<open>line 142\<close>
  "summary ex =
     map (\<lambda>k. (k, sum_list (map col_amount (filter (\<lambda>r. group_key r = k) ex))))
       (sort (remdups (map group_key ex)))"

text \<open>
  What the report tab shows: the notice of line 116, the warning of line 125, or the
  three metrics of lines 131 to 133 (income, expense, balance; the values that are
  formatted) with the table of line 143 when there is an expense. The chart of line 138
  is drawn from the same expense rows and is not part of the model.
\<close>

datatype view =
    Info
  | Warning nat
  | Metrics rat rat rat "(group \<times> rat) list option"

definition month_view :: "nat \<Rightarrow> row list \<Rightarrow> view" where
  \<comment> \<open>lines 124 to 143, from the rows of the month\<close>
  "month_view selected_month m =
     (if m = [] then Warning selected_month
      else Metrics (inc_total m) (exp_total m) (inc_total m - exp_total m)
             (if exp_df m \<noteq> [] then Some (summary (exp_df m)) else None))"

text \<open>
  The tab changes the data frame (line 118), so it returns the frame with the view;
  \<open>None\<close> is the exception of \<^verbatim>\<open>pd.to_datetime\<close>. The selected month is the value of the
  select box of line 120, one of 1 to 12.
\<close>

definition tab2 :: "(ustring \<Rightarrow> date option) \<Rightarrow> dataframe \<Rightarrow> nat \<Rightarrow> (dataframe \<times> view) option" where
  "tab2 parse df selected_month =
     (if df_empty df then Some (df, Info)
      else case to_datetime parse (map col_date (rows df)) of
             None \<Rightarrow> None
           | Some col \<Rightarrow>
               let df' = df\<lparr>rows := set_date_column (rows df) col\<rparr>
               in Some (df', month_view selected_month (m_df (rows df') selected_month)))"

section \<open>Date strings of the form the program writes\<close>

text \<open>
  For examples, the parser on the strings that line 97 writes: four digits, a hyphen,
  two digits, a hyphen, two digits, naming a day of the calendar. The library reads
  these as that day. It reads other formats too; here they are \<open>None\<close>, and nothing
  below depends on them.
\<close>

definition digit_val :: "nat \<Rightarrow> nat option" where
  "digit_val c = (if 48 \<le> c \<and> c \<le> 57 then Some (c - 48) else None)"

definition number :: "ustring \<Rightarrow> nat option" where
  "number cs = map_option (foldl (\<lambda>n v. 10 * n + v) 0) (those (map digit_val cs))"

definition leap :: "nat \<Rightarrow> bool" where
  "leap y = (y mod 4 = 0 \<and> (y mod 100 \<noteq> 0 \<or> y mod 400 = 0))"

definition days_in_month :: "nat \<Rightarrow> nat \<Rightarrow> nat" where
  "days_in_month y m =
     (if m = 2 then (if leap y then 29 else 28)
      else if m \<in> set [4, 6, 9, 11] then 30 else 31)"

definition to_datetime_ymd :: "ustring \<Rightarrow> date option" where
  "to_datetime_ymd s =
     (if length s = 10 \<and> s ! 4 = 45 \<and> s ! 7 = 45
      then do {
        y \<leftarrow> number (take 4 s);
        m \<leftarrow> number (take 2 (drop 5 s));
        d \<leftarrow> number (drop 8 s);
        if 1 \<le> y \<and> 1 \<le> m \<and> m \<le> 12 \<and> 1 \<le> d \<and> d \<le> days_in_month y m
        then Some \<lparr>year = y, month = m, day = d\<rparr> else None
      }
      else None)"

section \<open>The names of the specification\<close>

text \<open>
  The specification names the kinds, main categories and sub-categories in English.
  Each name is the string of the source it translates: \<open>Income\<close>, \<open>Expense\<close> and
  \<open>Children\<close> above, the others here. \<open>spec_taxonomy\<close> is the nested mapping as the
  specification writes it, in these names.
\<close>

definition Salary :: ustring where
  \<comment> \<open>line 50: U+85AA U+91D1, main category\<close>
  "Salary = [0x85AA, 0x91D1]"

definition MonthlySalary :: ustring where
  \<comment> \<open>line 50: U+6BCF U+6708 U+85AA U+91D1, sub-category\<close>
  "MonthlySalary = [0x6BCF, 0x6708, 0x85AA, 0x91D1]"

definition Other :: ustring where
  \<comment> \<open>line 51: U+5176 U+4ED6, main category\<close>
  "Other = [0x5176, 0x4ED6]"

definition Bonus :: ustring where
  \<comment> \<open>line 51: U+82B1 U+7D05, sub-category\<close>
  "Bonus = [0x82B1, 0x7D05]"

definition InvestmentReturn :: ustring where
  \<comment> \<open>line 51: U+6295 U+8CC7 U+56DE U+5831, sub-category\<close>
  "InvestmentReturn = [0x6295, 0x8CC7, 0x56DE, 0x5831]"

definition OtherIncome :: ustring where
  \<comment> \<open>line 51: U+5176 U+4ED6 U+6536 U+5165, sub-category\<close>
  "OtherIncome = [0x5176, 0x4ED6, 0x6536, 0x5165]"

definition Household :: ustring where
  \<comment> \<open>line 54: U+5BB6 U+5EAD U+652F U+51FA, main category\<close>
  "Household = [0x5BB6, 0x5EAD, 0x652F, 0x51FA]"

definition Mortgage :: ustring where
  \<comment> \<open>line 54: U+4F9B U+6A13, sub-category\<close>
  "Mortgage = [0x4F9B, 0x6A13]"

definition ManagementFee :: ustring where
  \<comment> \<open>line 54: U+7BA1 U+7406 U+8CBB, sub-category\<close>
  "ManagementFee = [0x7BA1, 0x7406, 0x8CBB]"

definition Water :: ustring where
  \<comment> \<open>line 54: U+6C34 U+8CBB, sub-category\<close>
  "Water = [0x6C34, 0x8CBB]"

definition Electricity :: ustring where
  \<comment> \<open>line 54: U+96FB U+8CBB, sub-category\<close>
  "Electricity = [0x96FB, 0x8CBB]"

definition Gas :: ustring where
  \<comment> \<open>line 54: U+7164 U+6C23 U+8CBB, sub-category\<close>
  "Gas = [0x7164, 0x6C23, 0x8CBB]"

definition Phone :: ustring where
  \<comment> \<open>line 54: U+96FB U+8A71 U+8CBB, sub-category\<close>
  "Phone = [0x96FB, 0x8A71, 0x8CBB]"

definition Internet :: ustring where
  \<comment> \<open>line 54: U+4E0A U+7DB2 U+8CBB, sub-category\<close>
  "Internet = [0x4E0A, 0x7DB2, 0x8CBB]"

definition Streaming :: ustring where
  \<comment> \<open>line 54: U+4E32 U+6D41 U+5E73 U+53F0, sub-category\<close>
  "Streaming = [0x4E32, 0x6D41, 0x5E73, 0x53F0]"

definition Rates :: ustring where
  \<comment> \<open>line 54: U+5DEE U+9909, sub-category\<close>
  "Rates = [0x5DEE, 0x9909]"

definition DomesticHelperSalary :: ustring where
  \<comment> \<open>line 54: U+5916 U+50AD U+85AA U+91D1, sub-category\<close>
  "DomesticHelperSalary = [0x5916, 0x50AD, 0x85AA, 0x91D1]"

definition HouseholdSupplies :: ustring where
  \<comment> \<open>line 54: U+5BB6 U+5EAD U+65E5 U+5E38 U+7528 U+54C1, sub-category\<close>
  "HouseholdSupplies = [0x5BB6, 0x5EAD, 0x65E5, 0x5E38, 0x7528, 0x54C1]"

definition Personal :: ustring where
  \<comment> \<open>line 55: U+500B U+4EBA U+652F U+51FA, main category\<close>
  "Personal = [0x500B, 0x4EBA, 0x652F, 0x51FA]"

definition Meals :: ustring where
  \<comment> \<open>line 55: U+65E9 U+5348 U+665A U+4E09 U+9910, sub-category\<close>
  "Meals = [0x65E9, 0x5348, 0x665A, 0x4E09, 0x9910]"

definition Shopping :: ustring where
  \<comment> \<open>line 55: U+8CFC U+7269, sub-category\<close>
  "Shopping = [0x8CFC, 0x7269]"

definition Entertainment :: ustring where
  \<comment> \<open>line 55: U+5A1B U+6A02, sub-category\<close>
  "Entertainment = [0x5A1B, 0x6A02]"

definition PersonalOther :: ustring where
  \<comment> \<open>line 55: U+500B U+4EBA U+5176 U+4ED6, sub-category\<close>
  "PersonalOther = [0x500B, 0x4EBA, 0x5176, 0x4ED6]"

definition Tuition :: ustring where
  \<comment> \<open>line 56: U+5B78 U+8CBB, sub-category\<close>
  "Tuition = [0x5B78, 0x8CBB]"

definition ActivityClasses :: ustring where
  \<comment> \<open>line 56: U+8208 U+8DA3 U+73ED, sub-category\<close>
  "ActivityClasses = [0x8208, 0x8DA3, 0x73ED]"

definition Medical :: ustring where
  \<comment> \<open>line 56: U+91AB U+7642, sub-category\<close>
  "Medical = [0x91AB, 0x7642]"

definition OtherFees :: ustring where
  \<comment> \<open>line 56: U+5176 U+4ED6 U+8CBB U+7528, sub-category\<close>
  "OtherFees = [0x5176, 0x4ED6, 0x8CBB, 0x7528]"

definition Transport :: ustring where
  \<comment> \<open>line 57: U+4EA4 U+901A U+8CBB U+7528, main category\<close>
  "Transport = [0x4EA4, 0x901A, 0x8CBB, 0x7528]"

definition Fare :: ustring where
  \<comment> \<open>line 57: U+8ECA U+8CBB, sub-category\<close>
  "Fare = [0x8ECA, 0x8CBB]"

definition EVCharging :: ustring where
  \<comment> \<open>line 57: U+8ECA U+5145 U+96FB U+8CBB U+7528, sub-category\<close>
  "EVCharging = [0x8ECA, 0x5145, 0x96FB, 0x8CBB, 0x7528]"

definition Parking :: ustring where
  \<comment> \<open>line 57: U+6CCA U+8ECA, sub-category\<close>
  "Parking = [0x6CCA, 0x8ECA]"

definition TransportOther :: ustring where
  \<comment> \<open>line 57: U+4EA4 U+901A U+5176 U+4ED6, sub-category\<close>
  "TransportOther = [0x4EA4, 0x901A, 0x5176, 0x4ED6]"

definition SavingsInsurance :: ustring where
  \<comment> \<open>line 58: U+5132 U+84C4 U+8207 U+4FDD U+96AA, main category\<close>
  "SavingsInsurance = [0x5132, 0x84C4, 0x8207, 0x4FDD, 0x96AA]"

definition Deposit :: ustring where
  \<comment> \<open>line 58: U+5B58 U+6B3E, sub-category\<close>
  "Deposit = [0x5B58, 0x6B3E]"

definition Insurance :: ustring where
  \<comment> \<open>line 58: U+4FDD U+96AA, sub-category\<close>
  "Insurance = [0x4FDD, 0x96AA]"

definition TravelFund :: ustring where
  \<comment> \<open>line 58: U+65C5 U+904A U+57FA U+91D1, sub-category\<close>
  "TravelFund = [0x65C5, 0x904A, 0x57FA, 0x91D1]"

definition spec_taxonomy :: "(ustring \<times> (ustring \<times> ustring list) list) list" where
  "spec_taxonomy =
    [(Income,
        [(Salary, [MonthlySalary]),
         (Other, [Bonus, InvestmentReturn, OtherIncome])]),
     (Expense,
        [(Household,
            [Mortgage, ManagementFee, Water, Electricity, Gas, Phone, Internet, Streaming,
             Rates, DomesticHelperSalary, HouseholdSupplies]),
         (Personal, [Meals, Shopping, Entertainment, PersonalOther]),
         (Children, [Tuition, ActivityClasses, Medical, OtherFees]),
         (Transport, [Fare, EVCharging, Parking, TransportOther]),
         (SavingsInsurance, [Deposit, Insurance, TravelFund])])]"

definition spec_names :: "ustring list" where
  "spec_names =
     [Income, Expense, Salary, MonthlySalary, Other, Bonus, InvestmentReturn, OtherIncome,
      Household, Mortgage, ManagementFee, Water, Electricity, Gas, Phone, Internet,
      Streaming, Rates, DomesticHelperSalary, HouseholdSupplies, Personal, Meals, Shopping,
      Entertainment, PersonalOther, Children, Tuition, ActivityClasses, Medical, OtherFees,
      Transport, Fare, EVCharging, Parking, TransportOther, SavingsInsurance, Deposit,
      Insurance, TravelFund]"

section \<open>Example inputs\<close>

text \<open>
  Records of a worksheet, with date strings as line 97 writes them: an electricity bill
  of 5 March 2024, a salary of 10 March 2024, an electricity bill of 7 March 2023, a
  purchase of 14 February 2024, a record of 1 March 2024 whose member is the string
  \<^verbatim>\<open>Unknown\<close>, which is not in \<open>MEMBERS\<close>, and a tuition fee of 20 March 2024.
\<close>

definition row_bill :: row where
  \<comment> \<open>the date is \<^verbatim>\<open>2024-03-05\<close>\<close>
  "row_bill =
     \<lparr>col_date = DateStr [50, 48, 50, 52, 45, 48, 51, 45, 48, 53], col_member = Kam,
      col_kind = Expense, col_main = Household, col_sub = Electricity, col_amount = 500,
      col_note = []\<rparr>"

definition row_salary :: row where
  \<comment> \<open>the date is \<^verbatim>\<open>2024-03-10\<close>\<close>
  "row_salary =
     \<lparr>col_date = DateStr [50, 48, 50, 52, 45, 48, 51, 45, 49, 48], col_member = Connie,
      col_kind = Income, col_main = Salary, col_sub = MonthlySalary, col_amount = 30000,
      col_note = []\<rparr>"

definition row_last_year :: row where
  \<comment> \<open>the date is \<^verbatim>\<open>2023-03-07\<close>\<close>
  "row_last_year =
     \<lparr>col_date = DateStr [50, 48, 50, 51, 45, 48, 51, 45, 48, 55], col_member = Kam,
      col_kind = Expense, col_main = Household, col_sub = Electricity, col_amount = 450,
      col_note = []\<rparr>"

definition row_february :: row where
  \<comment> \<open>the date is \<^verbatim>\<open>2024-02-14\<close>\<close>
  "row_february =
     \<lparr>col_date = DateStr [50, 48, 50, 52, 45, 48, 50, 45, 49, 52], col_member = Connie,
      col_kind = Expense, col_main = Personal, col_sub = Shopping, col_amount = 80,
      col_note = []\<rparr>"

definition Unknown :: ustring where
  \<comment> \<open>the ASCII string \<^verbatim>\<open>Unknown\<close>\<close>
  "Unknown = [85, 110, 107, 110, 111, 119, 110]"

definition row_unknown :: row where
  \<comment> \<open>the date is \<^verbatim>\<open>2024-03-01\<close>\<close>
  "row_unknown =
     \<lparr>col_date = DateStr [50, 48, 50, 52, 45, 48, 51, 45, 48, 49], col_member = Unknown,
      col_kind = Expense, col_main = Household, col_sub = Water, col_amount = 120,
      col_note = []\<rparr>"

definition row_tuition :: row where
  \<comment> \<open>the date is \<^verbatim>\<open>2024-03-20\<close>\<close>
  "row_tuition =
     \<lparr>col_date = DateStr [50, 48, 50, 52, 45, 48, 51, 45, 50, 48], col_member = Xiqing,
      col_kind = Expense, col_main = Children, col_sub = Tuition, col_amount = 2000,
      col_note = []\<rparr>"

definition example_sheet :: sheet where
  "example_sheet = [row_tuition, row_bill, row_salary, row_last_year, row_february]"

definition stamp :: "nat \<Rightarrow> nat \<Rightarrow> nat \<Rightarrow> row \<Rightarrow> row" where
  \<comment> \<open>the record with its date cell parsed to the given day\<close>
  "stamp y m d r = r\<lparr>col_date := Timestamp \<lparr>year = y, month = m, day = d\<rparr>\<rparr>"

definition example_frame :: dataframe where
  "example_frame =
     \<lparr>columns = COLUMNS,
      rows = [stamp 2024 3 20 row_tuition, stamp 2024 3 5 row_bill, stamp 2024 3 10 row_salary,
              stamp 2023 3 7 row_last_year, stamp 2024 2 14 row_february]\<rparr>"




section \<open>Facts about the model\<close>

subsection \<open>Parsing the date column\<close>

lemma those_eq_Some: "those xs = Some ys \<longleftrightarrow> xs = map Some ys"
  by (induction xs arbitrary: ys) (auto split: option.splits)

lemma to_datetime_SomeD:
  assumes "to_datetime parse col = Some col'"
  shows "\<exists>ds. map (cell_date parse) col = map Some ds \<and> col' = map Timestamp ds"
proof -
  from assms have eq: "map (\<lambda>c. map_option Timestamp (cell_date parse c)) col = map Some col'"
    by (simp add: to_datetime_def those_eq_Some)
  then show ?thesis
  proof (induction col arbitrary: col')
    case Nil
    then show ?case by simp
  next
    case (Cons c col)
    then obtain x xs where col': "col' = x # xs"
      by (cases col') auto
    with Cons.prems have hd: "map_option Timestamp (cell_date parse c) = Some x"
      and tl: "map (\<lambda>c. map_option Timestamp (cell_date parse c)) col = map Some xs"
      by simp_all
    from hd obtain d where d: "cell_date parse c = Some d" "x = Timestamp d"
      by auto
    from Cons.IH [OF tl] obtain ds where
      ds: "map (cell_date parse) col = map Some ds" "xs = map Timestamp ds"
      by blast
    have "map (cell_date parse) (c # col) = map Some (d # ds) \<and> col' = map Timestamp (d # ds)"
      using d ds col' by simp
    then show ?case by blast
  qed
qed

lemma to_datetime_SomeI:
  "map (cell_date parse) col = map Some ds \<Longrightarrow> to_datetime parse col = Some (map Timestamp ds)"
proof -
  assume a: "map (cell_date parse) col = map Some ds"
  have "map (\<lambda>c. map_option Timestamp (cell_date parse c)) col
        = map (map_option Timestamp) (map (cell_date parse) col)"
    by simp
  also have "\<dots> = map Some (map Timestamp ds)"
    unfolding a by simp
  finally show ?thesis
    by (simp add: to_datetime_def those_eq_Some)
qed

lemma set_date_column_stamps:
  "set_date_column rs (map Timestamp ds) = map (\<lambda>(r, d). r\<lparr>col_date := Timestamp d\<rparr>) (zip rs ds)"
  by (simp add: set_date_column_def zip_map2 case_prod_unfold)

lemma m_df_stamps:
  "m_df (map (\<lambda>(r, d). r\<lparr>col_date := Timestamp d\<rparr>) (zip rs ds)) m =
     map (\<lambda>(r, d). r\<lparr>col_date := Timestamp d\<rparr>) (filter (\<lambda>(r, d). month d = m) (zip rs ds))"
  by (simp add: m_df_def filter_map comp_def case_prod_unfold)

lemma tab2_SomeD:
  assumes "tab2 parse df m = Some (df', v)" and "\<not> df_empty df"
  shows "\<exists>ds. map (cell_date parse) (map col_date (rows df)) = map Some ds \<and>
           df' = df\<lparr>rows := map (\<lambda>(r, d). r\<lparr>col_date := Timestamp d\<rparr>) (zip (rows df) ds)\<rparr> \<and>
           v = month_view m (m_df (rows df') m)"
proof -
  from assms obtain col where col: "to_datetime parse (map col_date (rows df)) = Some col"
    and df': "df' = df\<lparr>rows := set_date_column (rows df) col\<rparr>"
    and v: "v = month_view m (m_df (rows df') m)"
    by (auto simp: tab2_def Let_def split: option.splits)
  from to_datetime_SomeD [OF col] obtain ds where
    ds: "map (cell_date parse) (map col_date (rows df)) = map Some ds" "col = map Timestamp ds"
    by blast
  show ?thesis
    using ds df' v by (auto simp: set_date_column_stamps)
qed

lemma tab2_SomeI:
  assumes "map (cell_date parse) (map col_date (rows df)) = map Some ds" and "\<not> df_empty df"
  shows "tab2 parse df m =
           Some (df\<lparr>rows := map (\<lambda>(r, d). r\<lparr>col_date := Timestamp d\<rparr>) (zip (rows df) ds)\<rparr>,
                 month_view m (map (\<lambda>(r, d). r\<lparr>col_date := Timestamp d\<rparr>)
                                 (filter (\<lambda>(r, d). month d = m) (zip (rows df) ds))))"
  using assms(2) to_datetime_SomeI [OF assms(1)]
  by (simp add: tab2_def Let_def set_date_column_stamps m_df_stamps)

lemma month_view_Metrics:
  assumes "tab2 parse df m = Some (df', Metrics i e b g)"
  shows "m_df (rows df') m \<noteq> [] \<and> i = inc_total (m_df (rows df') m) \<and>
         e = exp_total (m_df (rows df') m) \<and> b = i - e \<and>
         g = (if exp_df (m_df (rows df') m) \<noteq> [] then Some (summary (exp_df (m_df (rows df') m)))
              else None)"
proof -
  have ne: "\<not> df_empty df"
    using assms by (auto simp: tab2_def)
  from tab2_SomeD [OF assms ne]
  have "Metrics i e b g = month_view m (m_df (rows df') m)"
    by blast
  then show ?thesis
    by (auto simp: month_view_def split: if_splits)
qed

lemma parsed_length:
  "map (cell_date parse) (map col_date rs) = map Some ds \<Longrightarrow> length ds = length rs"
  by (metis length_map)

lemma parsed_nth:
  assumes "map (cell_date parse) (map col_date rs) = map Some ds" and "j < length rs"
  shows "cell_date parse (col_date (rs ! j)) = Some (ds ! j)"
proof -
  have len: "length ds = length rs"
    using assms(1) by (rule parsed_length)
  have "map (cell_date parse) (map col_date rs) ! j = map Some ds ! j"
    using assms(1) by simp
  then show ?thesis
    using assms(2) len by simp
qed

subsection \<open>The frame after the report\<close>

lemma stamps_nth:
  "length ds = length rs \<Longrightarrow> j < length rs \<Longrightarrow>
     map (\<lambda>(r, d). r\<lparr>col_date := Timestamp d\<rparr>) (zip rs ds) ! j
       = (rs ! j)\<lparr>col_date := Timestamp (ds ! j)\<rparr>"
  by simp

lemma stamps_again:
  assumes "length ds = length rs"
  shows "map (\<lambda>(r, d). r\<lparr>col_date := Timestamp d\<rparr>)
           (zip (map (\<lambda>(r, d). r\<lparr>col_date := Timestamp d\<rparr>) (zip rs ds)) ds)
         = map (\<lambda>(r, d). r\<lparr>col_date := Timestamp d\<rparr>) (zip rs ds)"
  using assms by (intro nth_equalityI) simp_all

lemma stamps_parsed:
  assumes "length ds = length rs"
  shows "map (cell_date parse) (map col_date (map (\<lambda>(r, d). r\<lparr>col_date := Timestamp d\<rparr>) (zip rs ds)))
         = map Some ds"
  using assms by (intro nth_equalityI) simp_all

subsection \<open>Sums by group\<close>





subsection \<open>The table of groups\<close>

lemma summary_keys: "map fst (summary ex) = sort (remdups (map group_key ex))"
  by (simp add: summary_def comp_def)

lemma summary_sorted: "sorted_wrt (<) (map fst (summary ex))"
  by (simp add: summary_keys strict_sorted_iff)

lemma summary_key_set:
  "set (map fst (summary (exp_df rs))) = group_key ` {r \<in> set rs. col_kind r = Expense}"
  by (simp add: summary_keys exp_df_def)

lemma summary_amount:
  "(k, a) \<in> set (summary (exp_df rs)) \<Longrightarrow>
     a = (\<Sum>r\<leftarrow>filter (\<lambda>r. col_kind r = Expense \<and> group_key r = k) rs. col_amount r)"
proof -
  assume "(k, a) \<in> set (summary (exp_df rs))"
  then have "a = (\<Sum>r\<leftarrow>filter (\<lambda>r. group_key r = k) (exp_df rs). col_amount r)"
    by (auto simp: summary_def)
  also have "filter (\<lambda>r. group_key r = k) (exp_df rs)
             = filter (\<lambda>r. col_kind r = Expense \<and> group_key r = k) rs"
    by (simp add: exp_df_def conj_commute)
  finally show ?thesis .
qed

lemma summary_has_key:
  assumes "r \<in> set ex"
  shows "\<exists>a. (group_key r, a) \<in> set (summary ex)"
proof -
  have "group_key r \<in> set (map fst (summary ex))"
    using assms by (simp add: summary_keys)
  then show ?thesis by auto
qed

lemma exp_df_append_others:
  "\<forall>r\<in>set extra. col_kind r \<noteq> Expense \<Longrightarrow> exp_df (rs @ extra) = exp_df rs"
  by (simp add: exp_df_def)

subsection \<open>Loading the worksheet\<close>

lemma rows_load_df: "rows (load_df sheet) = sheet"
  by (simp add: load_df_def get_all_records_def DataFrame_def)

lemma columns_load_df: "columns (load_df sheet) = COLUMNS"
  by (simp add: load_df_def get_all_records_def DataFrame_def)

lemma load_df_empty_iff: "df_empty (load_df sheet) \<longleftrightarrow> sheet = []"
  by (simp add: df_empty_def rows_load_df columns_load_df) (simp add: COLUMNS_def)

subsection \<open>The default main category\<close>

lemma index_Some:
  "x \<in> set xs \<Longrightarrow>
     \<exists>i. index xs x = Some i \<and> i < length xs \<and> xs ! i = x \<and> (\<forall>j<i. xs ! j \<noteq> x)"
proof (induction xs)
  case Nil
  then show ?case by simp
next
  case (Cons y ys)
  show ?case
  proof (cases "y = x")
    case True
    then show ?thesis by simp
  next
    case False
    with Cons.prems have "x \<in> set ys" by simp
    from Cons.IH [OF this] obtain i where
      i: "index ys x = Some i" "i < length ys" "ys ! i = x" "\<forall>j<i. ys ! j \<noteq> x"
      by blast
    have "\<forall>j<Suc i. (y # ys) ! j \<noteq> x"
      using i(4) False by (auto simp: nth_Cons split: nat.splits)
    with i False show ?thesis by simp
  qed
qed

lemma available_main_Income:
  "available_main Income =
     Some [[0x85AA, 0x91D1], [0x5176, 0x4ED6]]"
  by (simp add: available_main_def CATEGORIES_def Income_def)

lemma available_main_Expense:
  "available_main Expense =
     Some [[0x5BB6, 0x5EAD, 0x652F, 0x51FA], [0x500B, 0x4EBA, 0x652F, 0x51FA],
           [0x5C0F, 0x670B, 0x53CB, 0x652F, 0x51FA], [0x4EA4, 0x901A, 0x8CBB, 0x7528],
           [0x5132, 0x84C4, 0x8207, 0x4FDD, 0x96AA]]"
  by (simp add: available_main_def CATEGORIES_def Expense_def)

lemma Income_neq_Expense: "Income \<noteq> Expense"
  by (simp add: Income_def Expense_def)



subsection \<open>The entry form\<close>





subsection \<open>The examples, evaluated\<close>

lemmas spec_name_defs =
  Income_def Expense_def Children_def Salary_def MonthlySalary_def Other_def Bonus_def
  InvestmentReturn_def OtherIncome_def Household_def Mortgage_def ManagementFee_def Water_def
  Electricity_def Gas_def Phone_def Internet_def Streaming_def Rates_def
  DomesticHelperSalary_def HouseholdSupplies_def Personal_def Meals_def Shopping_def
  Entertainment_def PersonalOther_def Tuition_def ActivityClasses_def Medical_def OtherFees_def
  Transport_def Fare_def EVCharging_def Parking_def TransportOther_def SavingsInsurance_def
  Deposit_def Insurance_def TravelFund_def

lemmas member_defs = Connie_def Kam_def Xiqing_def Xilang_def Unknown_def

lemmas ymd_defs = to_datetime_ymd_def number_def digit_val_def days_in_month_def leap_def

lemmas report_defs =
  tab2_def load_df_def get_all_records_def DataFrame_def df_empty_def COLUMNS_def
  to_datetime_def set_date_column_def stamp_def month_view_def m_df_def inc_total_def
  exp_total_def exp_df_def summary_def group_key_def

lemmas row_defs =
  row_bill_def row_salary_def row_last_year_def row_february_def row_unknown_def
  row_tuition_def example_sheet_def

lemma ymd_2024_03_05:
  "to_datetime_ymd [50, 48, 50, 52, 45, 48, 51, 45, 48, 53] = Some \<lparr>year = 2024, month = 3, day = 5\<rparr>"
  by (simp add: ymd_defs)

lemma ymd_2024_03_10:
  "to_datetime_ymd [50, 48, 50, 52, 45, 48, 51, 45, 49, 48] = Some \<lparr>year = 2024, month = 3, day = 10\<rparr>"
  by (simp add: ymd_defs)

lemma ymd_2023_03_07:
  "to_datetime_ymd [50, 48, 50, 51, 45, 48, 51, 45, 48, 55] = Some \<lparr>year = 2023, month = 3, day = 7\<rparr>"
  by (simp add: ymd_defs)

lemma ymd_2024_02_14:
  "to_datetime_ymd [50, 48, 50, 52, 45, 48, 50, 45, 49, 52] = Some \<lparr>year = 2024, month = 2, day = 14\<rparr>"
  by (simp add: ymd_defs)

lemma ymd_2024_03_01:
  "to_datetime_ymd [50, 48, 50, 52, 45, 48, 51, 45, 48, 49] = Some \<lparr>year = 2024, month = 3, day = 1\<rparr>"
  by (simp add: ymd_defs)

lemma ymd_2024_03_20:
  "to_datetime_ymd [50, 48, 50, 52, 45, 48, 51, 45, 50, 48] = Some \<lparr>year = 2024, month = 3, day = 20\<rparr>"
  by (simp add: ymd_defs)

lemmas ymd_values =
  ymd_2024_03_05 ymd_2024_03_10 ymd_2023_03_07 ymd_2024_02_14 ymd_2024_03_01 ymd_2024_03_20

lemma example_nonempty: "\<not> df_empty (load_df example_sheet)"
  by (simp add: load_df_def get_all_records_def DataFrame_def df_empty_def COLUMNS_def example_sheet_def)

lemma example_dates:
  "map (cell_date to_datetime_ymd) (map col_date (rows (load_df example_sheet))) =
     map Some [\<lparr>year = 2024, month = 3, day = 20\<rparr>, \<lparr>year = 2024, month = 3, day = 5\<rparr>,
               \<lparr>year = 2024, month = 3, day = 10\<rparr>, \<lparr>year = 2023, month = 3, day = 7\<rparr>,
               \<lparr>year = 2024, month = 2, day = 14\<rparr>]"
  by (simp add: rows_load_df row_defs ymd_values)

lemma example_report:
  "tab2 to_datetime_ymd (load_df example_sheet) 3 =
     Some (example_frame,
           Metrics 30000 2950 27050
             (Some [((Household, Electricity, Kam), 950), ((Children, Tuition, Xiqing), 2000)]))"
  apply (simp add: report_defs row_defs ymd_values example_frame_def)
  apply (simp add: spec_name_defs member_defs)
  done

lemma unknown_report:
  "tab2 to_datetime_ymd (load_df [row_bill, row_unknown]) 3 =
     Some (\<lparr>columns = COLUMNS, rows = [stamp 2024 3 5 row_bill, stamp 2024 3 1 row_unknown]\<rparr>,
           Metrics 0 620 (- 620)
             (Some [((Household, Water, Unknown), 120), ((Household, Electricity, Kam), 500)]))"
  apply (simp add: report_defs row_defs ymd_values)
  apply (simp add: spec_name_defs member_defs)
  done


section \<open>The claims\<close>

text \<open>
  C1. For a frame that is not empty and whose date cells all parse, the report tab
  returns a view, computed from the rows of the month alone. The rows of the month are
  exactly the rows of the log whose parsed date has the selected month number, in the
  order of the log, each with its date cell replaced by the timestamp. The test reads
  the month of the date and nothing else: in the example the rows of March 2023 and of
  March 2024 are all in the report for month 3.
\<close>

theorem month_filter:
  assumes "\<not> df_empty df" and "map (cell_date parse) (map col_date (rows df)) = map Some ds"
  shows "\<exists>df'. tab2 parse df m = Some (df', month_view m (m_df (rows df') m)) \<and>
           rows df' = map (\<lambda>(r, d). r\<lparr>col_date := Timestamp d\<rparr>) (zip (rows df) ds) \<and>
           m_df (rows df') m =
             map (\<lambda>(r, d). r\<lparr>col_date := Timestamp d\<rparr>)
               (filter (\<lambda>(r, d). month d = m) (zip (rows df) ds))"
proof -
  let ?stamp = "\<lambda>(r, d). r\<lparr>col_date := Timestamp d\<rparr>"
  let ?df' = "df\<lparr>rows := map ?stamp (zip (rows df) ds)\<rparr>"
  have rows: "rows ?df' = map ?stamp (zip (rows df) ds)"
    by simp
  have month: "m_df (rows ?df') m = map ?stamp (filter (\<lambda>(r, d). month d = m) (zip (rows df) ds))"
    unfolding rows by (rule m_df_stamps)
  have "tab2 parse df m = Some (?df', month_view m (m_df (rows ?df') m))"
    unfolding month using assms(2,1) by (rule tab2_SomeI)
  with rows month show ?thesis by blast
qed

theorem month_filter_witness:
  "\<not> df_empty (load_df example_sheet) \<and>
   tab2 to_datetime_ymd (load_df example_sheet) 3 =
     Some (example_frame, month_view 3 (m_df (rows example_frame) 3)) \<and>
   m_df (rows example_frame) 3 =
     [stamp 2024 3 20 row_tuition, stamp 2024 3 5 row_bill, stamp 2024 3 10 row_salary,
      stamp 2023 3 7 row_last_year] \<and>
   month_view 3 (m_df (rows example_frame) 3) =
     Metrics 30000 2950 27050
       (Some [((Household, Electricity, Kam), 950), ((Children, Tuition, Xiqing), 2000)])"
proof -
  from month_filter [OF example_nonempty example_dates, of 3] obtain df' where
    t: "tab2 to_datetime_ymd (load_df example_sheet) 3 = Some (df', month_view 3 (m_df (rows df') 3))"
    by blast
  with example_report have df': "df' = example_frame"
    by simp
  from t example_report have v: "month_view 3 (m_df (rows example_frame) 3) =
              Metrics 30000 2950 27050
                (Some [((Household, Electricity, Kam), 950), ((Children, Tuition, Xiqing), 2000)])"
    unfolding df' by simp
  have "m_df (rows example_frame) 3 =
     [stamp 2024 3 20 row_tuition, stamp 2024 3 5 row_bill, stamp 2024 3 10 row_salary,
      stamp 2023 3 7 row_last_year]"
    by (simp add: example_frame_def m_df_def stamp_def)
  with t v example_nonempty show ?thesis unfolding df' by simp
qed



text \<open>
  C3. When the report tab shows the metrics, the table of groups is shown exactly when
  the month has an expense row. Its keys are the triples (main category, item, member)
  of the month's expense rows, each once, in strictly ascending order; the amount of a
  key is the sum of the amounts of the month's expense rows with that key; and rows
  that are not expenses contribute to no group: the table is the same with any such
  rows added to the month.
\<close>

theorem grouped_breakdown:
  assumes "tab2 parse df m = Some (df', Metrics i e b g)"
  shows "case g of
           None \<Rightarrow> filter (\<lambda>r. col_kind r = Expense) (m_df (rows df') m) = []
         | Some bd \<Rightarrow>
             sorted_wrt (<) (map fst bd) \<and>
             set (map fst bd) = group_key ` {r \<in> set (m_df (rows df') m). col_kind r = Expense} \<and>
             (\<forall>k a. (k, a) \<in> set bd \<longrightarrow>
                a = (\<Sum>r\<leftarrow>filter (\<lambda>r. col_kind r = Expense \<and> group_key r = k)
                                (m_df (rows df') m). col_amount r)) \<and>
             (\<forall>extra. (\<forall>r\<in>set extra. col_kind r \<noteq> Expense) \<longrightarrow>
                summary (exp_df (m_df (rows df') m @ extra)) = bd)"
proof -
  let ?m = "m_df (rows df') m"
  from month_view_Metrics [OF assms] have
    g: "g = (if exp_df ?m \<noteq> [] then Some (summary (exp_df ?m)) else None)"
    by simp
  show ?thesis
  proof (cases "exp_df ?m = []")
    case True
    with g show ?thesis by (simp add: exp_df_def)
  next
    case False
    with g have bd: "g = Some (summary (exp_df ?m))" by simp
    have "sorted_wrt (<) (map fst (summary (exp_df ?m)))"
      by (rule summary_sorted)
    moreover have "set (map fst (summary (exp_df ?m)))
                   = group_key ` {r \<in> set ?m. col_kind r = Expense}"
      by (rule summary_key_set)
    moreover have "\<forall>k a. (k, a) \<in> set (summary (exp_df ?m)) \<longrightarrow>
                a = (\<Sum>r\<leftarrow>filter (\<lambda>r. col_kind r = Expense \<and> group_key r = k) ?m. col_amount r)"
      using summary_amount by blast
    moreover have "\<forall>extra. (\<forall>r\<in>set extra. col_kind r \<noteq> Expense) \<longrightarrow>
                summary (exp_df (?m @ extra)) = summary (exp_df ?m)"
      by (simp add: exp_df_append_others)
    ultimately show ?thesis
      unfolding bd by simp
  qed
qed

theorem grouped_breakdown_witness:
  "tab2 to_datetime_ymd (load_df example_sheet) 3 =
     Some (example_frame,
           Metrics 30000 2950 27050
             (Some [((Household, Electricity, Kam), 950), ((Children, Tuition, Xiqing), 2000)])) \<and>
   sorted_wrt (<) [(Household, Electricity, Kam), (Children, Tuition, Xiqing)] \<and>
   {(Household, Electricity, Kam), (Children, Tuition, Xiqing)} =
     group_key ` {r \<in> set (m_df (rows example_frame) 3). col_kind r = Expense} \<and>
   950 = (\<Sum>r\<leftarrow>filter (\<lambda>r. col_kind r = Expense \<and> group_key r = (Household, Electricity, Kam))
                      (m_df (rows example_frame) 3). col_amount r) \<and>
   summary (exp_df (m_df (rows example_frame) 3 @ [row_salary])) =
     [((Household, Electricity, Kam), 950), ((Children, Tuition, Xiqing), 2000)]"
proof -
  let ?bd = "[((Household, Electricity, Kam), 950::rat), ((Children, Tuition, Xiqing), 2000)]"
  from grouped_breakdown [OF example_report] have
    sorted: "sorted_wrt (<) (map fst ?bd)"
    and keys: "set (map fst ?bd) =
                 group_key ` {r \<in> set (m_df (rows example_frame) 3). col_kind r = Expense}"
    and amount: "\<forall>k a. (k, a) \<in> set ?bd \<longrightarrow>
                   a = (\<Sum>r\<leftarrow>filter (\<lambda>r. col_kind r = Expense \<and> group_key r = k)
                                   (m_df (rows example_frame) 3). col_amount r)"
    and others: "\<forall>extra. (\<forall>r\<in>set extra. col_kind r \<noteq> Expense) \<longrightarrow>
                   summary (exp_df (m_df (rows example_frame) 3 @ extra)) = ?bd"
    by simp_all
  have "((Household, Electricity, Kam), 950) \<in> set ?bd" by simp
  with amount have a: "950 = (\<Sum>r\<leftarrow>filter (\<lambda>r. col_kind r = Expense \<and>
                          group_key r = (Household, Electricity, Kam))
                      (m_df (rows example_frame) 3). col_amount r)"
    by blast
  have "\<forall>r\<in>set [row_salary]. col_kind r \<noteq> Expense"
    by (simp add: row_salary_def Income_neq_Expense)
  with others have o: "summary (exp_df (m_df (rows example_frame) 3 @ [row_salary])) = ?bd"
    by blast
  from sorted keys a o example_report show ?thesis by simp
qed




text \<open>
  C5, as the code has it. \<^verbatim>\<open>load_df\<close> checks nothing: a record whose member is not one
  of the members is loaded like any other, and the report of its month counts it, here
  as a group of its own of 120 within an expense of 620.
\<close>

theorem unknown_member_is_loaded:
  "rows (load_df [row_bill, row_unknown]) = [row_bill, row_unknown] \<and>
   col_member row_unknown = Unknown \<and> Unknown \<notin> set MEMBERS \<and>
   tab2 to_datetime_ymd (load_df [row_bill, row_unknown]) 3 =
     Some (\<lparr>columns = COLUMNS, rows = [stamp 2024 3 5 row_bill, stamp 2024 3 1 row_unknown]\<rparr>,
           Metrics 0 620 (- 620)
             (Some [((Household, Water, Unknown), 120), ((Household, Electricity, Kam), 500)]))"
  using unknown_report
  by (simp add: rows_load_df row_unknown_def MEMBERS_def member_defs)

text \<open>
  C5, amended. \<^verbatim>\<open>load_df\<close> returns every record of the worksheet, in the order of the
  worksheet, under the seven columns, and never raises; no record is left out, whatever
  its cells are. A record of the selected month, valid or not, is among the rows the
  report aggregates, the report shows the metrics, and when the record is an expense its
  group is a line of the table.
\<close>

theorem load_df_keeps_every_row:
  "rows (load_df sheet) = sheet \<and> columns (load_df sheet) = COLUMNS \<and>
   (tab2 parse (load_df sheet) m = Some (df', v) \<and> j < length sheet \<and>
    cell_date parse (col_date (sheet ! j)) = Some d \<and> month d = m
      \<longrightarrow> (\<exists>i e b g. v = Metrics i e b g \<and>
             (sheet ! j)\<lparr>col_date := Timestamp d\<rparr> \<in> set (m_df (rows df') m) \<and>
             (col_kind (sheet ! j) = Expense
                \<longrightarrow> (\<exists>bd a. g = Some bd \<and> (group_key (sheet ! j), a) \<in> set bd))))"
proof (intro conjI impI)
  show "rows (load_df sheet) = sheet" by (rule rows_load_df)
  show "columns (load_df sheet) = COLUMNS" by (rule columns_load_df)
next
  assume a: "tab2 parse (load_df sheet) m = Some (df', v) \<and> j < length sheet \<and>
    cell_date parse (col_date (sheet ! j)) = Some d \<and> month d = m"
  then have t: "tab2 parse (load_df sheet) m = Some (df', v)" and j: "j < length sheet"
    and d: "cell_date parse (col_date (sheet ! j)) = Some d" and md: "month d = m"
    by simp_all
  let ?r = "(sheet ! j)\<lparr>col_date := Timestamp d\<rparr>"
  let ?m = "m_df (rows df') m"
  have ne: "\<not> df_empty (load_df sheet)"
    using j by (auto simp: load_df_empty_iff)
  from tab2_SomeD [OF t ne] obtain ds where
    ds: "map (cell_date parse) (map col_date sheet) = map Some ds"
    and df': "df' = (load_df sheet)\<lparr>rows := map (\<lambda>(r, d). r\<lparr>col_date := Timestamp d\<rparr>) (zip sheet ds)\<rparr>"
    and v: "v = month_view m ?m"
    by (auto simp: rows_load_df)
  have len: "length ds = length sheet"
    using ds by (rule parsed_length)
  have "ds ! j = d"
    using parsed_nth [OF ds j] d by simp
  then have "rows df' ! j = ?r"
    using df' stamps_nth [OF len j] by simp
  moreover have "j < length (rows df')"
    using df' len j by simp
  ultimately have "?r \<in> set (rows df')"
    by (metis nth_mem)
  then have in_m: "?r \<in> set ?m"
    using md by (simp add: m_df_def)
  then have m_ne: "?m \<noteq> []" by auto
  have view: "v = Metrics (inc_total ?m) (exp_total ?m) (inc_total ?m - exp_total ?m)
                    (if exp_df ?m \<noteq> [] then Some (summary (exp_df ?m)) else None)"
    using v m_ne by (simp add: month_view_def)
  have exp: "\<exists>bd a. (if exp_df ?m \<noteq> [] then Some (summary (exp_df ?m)) else None) = Some bd \<and>
               (group_key (sheet ! j), a) \<in> set bd"
    if k: "col_kind (sheet ! j) = Expense"
  proof -
    have in_ex: "?r \<in> set (exp_df ?m)"
      using in_m k by (simp add: exp_df_def)
    then have "exp_df ?m \<noteq> []" by auto
    moreover from summary_has_key [OF in_ex] obtain a where
      "(group_key ?r, a) \<in> set (summary (exp_df ?m))"
      by blast
    moreover have "group_key ?r = group_key (sheet ! j)"
      by (simp add: group_key_def)
    ultimately show ?thesis by auto
  qed
  show "\<exists>i e b g. v = Metrics i e b g \<and> ?r \<in> set ?m \<and>
          (col_kind (sheet ! j) = Expense
             \<longrightarrow> (\<exists>bd a. g = Some bd \<and> (group_key (sheet ! j), a) \<in> set bd))"
    using view in_m exp by blast
qed

theorem load_df_keeps_every_row_witness:
  "rows (load_df [row_bill, row_unknown]) = [row_bill, row_unknown] \<and>
   columns (load_df [row_bill, row_unknown]) = COLUMNS \<and>
   (\<exists>i e b g. Metrics 0 620 (- 620)
        (Some [((Household, Water, Unknown), 120), ((Household, Electricity, Kam), 500)])
        = Metrics i e b g \<and>
      stamp 2024 3 1 row_unknown
        \<in> set (m_df [stamp 2024 3 5 row_bill, stamp 2024 3 1 row_unknown] 3) \<and>
      (\<exists>bd a. g = Some bd \<and> (group_key row_unknown, a) \<in> set bd))"
proof -
  let ?sheet = "[row_bill, row_unknown]"
  let ?df' = "\<lparr>columns = COLUMNS, rows = [stamp 2024 3 5 row_bill, stamp 2024 3 1 row_unknown]\<rparr>"
  let ?d = "\<lparr>year = 2024, month = 3, day = 1\<rparr>"
  have pre: "tab2 to_datetime_ymd (load_df ?sheet) 3 =
               Some (?df', Metrics 0 620 (- 620)
                 (Some [((Household, Water, Unknown), 120), ((Household, Electricity, Kam), 500)])) \<and>
             1 < length ?sheet \<and>
             cell_date to_datetime_ymd (col_date (?sheet ! 1)) = Some ?d \<and> month ?d = 3"
    using unknown_report by (simp add: row_unknown_def ymd_values)
  have k: "col_kind (?sheet ! 1) = Expense"
    by (simp add: row_unknown_def)
  have s: "(?sheet ! 1)\<lparr>col_date := Timestamp ?d\<rparr> = stamp 2024 3 1 row_unknown"
    by (simp add: stamp_def)
  let ?v = "Metrics 0 620 (- 620)
              (Some [((Household, Water, Unknown), 120::rat), ((Household, Electricity, Kam), 500)])"
  from load_df_keeps_every_row [of ?sheet to_datetime_ymd 3 ?df' ?v 1 ?d] pre k
  have "\<exists>i e b g. ?v = Metrics i e b g \<and>
          (?sheet ! 1)\<lparr>col_date := Timestamp ?d\<rparr> \<in> set (m_df (rows ?df') 3) \<and>
          (\<exists>bd a. g = Some bd \<and> (group_key (?sheet ! 1), a) \<in> set bd)"
    by blast
  then have "\<exists>i e b g. ?v = Metrics i e b g \<and>
          stamp 2024 3 1 row_unknown \<in> set (m_df (rows ?df') 3) \<and>
          (\<exists>bd a. g = Some bd \<and> (group_key row_unknown, a) \<in> set bd)"
    unfolding s by simp
  then show ?thesis
    by (simp add: rows_load_df columns_load_df)
qed

text \<open>
  C6. For a kind of the table (income or expense) the default index is the position of
  the children's main category among the main categories of the kind when the kind is
  expense, the member is one of the two children and that category is among the main
  categories; in every other case, so for income and any member, it is 0. For the table
  of the source the position is 2.
\<close>

theorem default_idx_rule:
  assumes "kind = Income \<or> kind = Expense"
  shows "\<exists>am. available_main kind = Some am \<and>
           (if kind = Expense \<and> (mem = Xiqing \<or> mem = Xilang) \<and> Children \<in> set am
            then \<exists>i. default_idx kind mem = Some i \<and> i < length am \<and> am ! i = Children \<and>
                     (\<forall>j<i. am ! j \<noteq> Children) \<and> i = 2
            else default_idx kind mem = Some 0)"
proof -
  from assms show ?thesis
  proof
    assume k: "kind = Income"
    then have "default_idx kind mem = Some 0"
      using Income_neq_Expense by (simp add: default_idx_def available_main_Income)
    with k show ?thesis
      using Income_neq_Expense by (simp add: available_main_Income)
  next
    assume k: "kind = Expense"
    obtain am where am: "available_main Expense = Some am"
      using available_main_Expense by simp
    have mem: "Children \<in> set am"
      using am by (auto simp: available_main_Expense Children_def)
    from index_Some [OF mem] obtain i where
      i: "index am Children = Some i" "i < length am" "am ! i = Children"
         "\<forall>j<i. am ! j \<noteq> Children"
      by blast
    have "index am Children = Some 2"
      using am by (auto simp: available_main_Expense Children_def)
    with i(1) have i2: "i = 2" by simp
    show ?thesis
    proof (cases "mem = Xiqing \<or> mem = Xilang")
      case True
      then have "default_idx kind mem = Some i"
        using k am mem i(1) by (auto simp: default_idx_def)
      with True k am mem i i2 show ?thesis by auto
    next
      case False
      then have "default_idx kind mem = Some 0"
        using k am by (simp add: default_idx_def)
      with False k am show ?thesis by simp
    qed
  qed
qed

theorem default_idx_rule_witness:
  "(Expense = Income \<or> Expense = Expense) \<and>
   (\<exists>am. available_main Expense = Some am \<and>
      (if Expense = Expense \<and> (Xilang = Xiqing \<or> Xilang = Xilang) \<and> Children \<in> set am
       then \<exists>i. default_idx Expense Xilang = Some i \<and> i < length am \<and> am ! i = Children \<and>
                (\<forall>j<i. am ! j \<noteq> Children) \<and> i = 2
       else default_idx Expense Xilang = Some 0))"
  using default_idx_rule [of Expense Xilang] by simp

text \<open>
  C7. The category table of the source is the nested mapping of the specification: the
  same kinds, main categories and sub-categories in the same order, each name of the
  specification read as the string of the source it translates; the names stand for
  different strings. The table is a constant: no function of the model takes or returns
  a table, and the source has no assignment to it.
\<close>

theorem CATEGORIES_is_spec_taxonomy:
  "CATEGORIES = spec_taxonomy \<and> distinct spec_names"
  by (simp add: CATEGORIES_def spec_taxonomy_def spec_names_def spec_name_defs)

text \<open>
  C8, as the code has it. For a log that has rows but none in the selected month, the
  report tab shows the warning of line 125 and computes no totals and no table.
\<close>

theorem month_without_rows_warns:
  "tab2 to_datetime_ymd (load_df [row_february]) 3 =
     Some (\<lparr>columns = COLUMNS, rows = [stamp 2024 2 14 row_february]\<rparr>, Warning 3)"
  by (simp add: report_defs row_defs ymd_values)

text \<open>
  C8, amended. Loading a worksheet with no records gives the frame with the seven
  columns of line 38 and no rows, without an exception, and the report tab shows the
  notice of line 116 for it. For a frame that has rows, all with dates that parse and
  none in the selected month, the report tab shows the warning of line 125, without an
  exception. In both cases no totals and no table are computed.
\<close>

theorem empty_views:
  "load_df [] = \<lparr>columns = COLUMNS, rows = []\<rparr> \<and> length COLUMNS = 7 \<and>
   tab2 parse (load_df []) m = Some (load_df [], Info) \<and>
   (\<not> df_empty df \<and> map (cell_date parse) (map col_date (rows df)) = map Some ds \<and>
    (\<forall>d\<in>set ds. month d \<noteq> m)
      \<longrightarrow> (\<exists>df'. tab2 parse df m = Some (df', Warning m) \<and> length (rows df') = length (rows df)))"
proof (intro conjI impI)
  show "load_df [] = \<lparr>columns = COLUMNS, rows = []\<rparr>"
    by (simp add: load_df_def get_all_records_def)
  show "length COLUMNS = 7"
    by (simp add: COLUMNS_def)
  show "tab2 parse (load_df []) m = Some (load_df [], Info)"
    by (simp add: tab2_def load_df_empty_iff)
next
  assume a: "\<not> df_empty df \<and> map (cell_date parse) (map col_date (rows df)) = map Some ds \<and>
    (\<forall>d\<in>set ds. month d \<noteq> m)"
  then have ne: "\<not> df_empty df"
    and ds: "map (cell_date parse) (map col_date (rows df)) = map Some ds"
    and no: "\<forall>d\<in>set ds. month d \<noteq> m"
    by simp_all
  have "filter (\<lambda>(r, d). month d = m) (zip (rows df) ds) = []"
    using no by (auto simp: filter_empty_conv dest: set_zip_rightD)
  with tab2_SomeI [OF ds ne, of m] parsed_length [OF ds]
  show "\<exists>df'. tab2 parse df m = Some (df', Warning m) \<and> length (rows df') = length (rows df)"
    by (simp add: month_view_def)
qed

theorem empty_views_witness:
  "load_df [] = \<lparr>columns = COLUMNS, rows = []\<rparr> \<and> length COLUMNS = 7 \<and>
   tab2 to_datetime_ymd (load_df []) 3 = Some (load_df [], Info) \<and>
   (\<exists>df'. tab2 to_datetime_ymd (load_df [row_february]) 3 = Some (df', Warning 3) \<and>
      length (rows df') = length (rows (load_df [row_february])))"
proof -
  have "\<not> df_empty (load_df [row_february]) \<and>
        map (cell_date to_datetime_ymd) (map col_date (rows (load_df [row_february])))
          = map Some [\<lparr>year = 2024, month = 2, day = 14\<rparr>] \<and>
        (\<forall>d\<in>set [\<lparr>year = 2024, month = 2, day = 14\<rparr>]. month d \<noteq> 3)"
    by (simp add: load_df_empty_iff rows_load_df row_february_def ymd_values)
  with empty_views [of to_datetime_ymd 3 "load_df [row_february]" "[\<lparr>year = 2024, month = 2, day = 14\<rparr>]"]
  show ?thesis by blast
qed

text \<open>
  C9, as the code has it. Line 118 assigns to the date column of the frame, so the
  report changes the log it is given: in the example the date cell of the second record
  is a string before the report and a timestamp after it.
\<close>

theorem report_changes_frame:
  "tab2 to_datetime_ymd (load_df example_sheet) 3 =
     Some (example_frame,
           Metrics 30000 2950 27050
             (Some [((Household, Electricity, Kam), 950), ((Children, Tuition, Xiqing), 2000)])) \<and>
   example_frame \<noteq> load_df example_sheet \<and>
   col_date (rows (load_df example_sheet) ! 1) = DateStr [50, 48, 50, 52, 45, 48, 51, 45, 48, 53] \<and>
   col_date (rows example_frame ! 1) = Timestamp \<lparr>year = 2024, month = 3, day = 5\<rparr>"
proof -
  have a: "col_date (rows (load_df example_sheet) ! 1) = DateStr [50, 48, 50, 52, 45, 48, 51, 45, 48, 53]"
    by (simp add: load_df_def get_all_records_def DataFrame_def example_sheet_def row_bill_def)
  have b: "col_date (rows example_frame ! 1) = Timestamp \<lparr>year = 2024, month = 3, day = 5\<rparr>"
    by (simp add: example_frame_def stamp_def)
  from a b have "example_frame \<noteq> load_df example_sheet"
    by auto
  with a b example_report show ?thesis by simp
qed

text \<open>
  C9, amended. The report is a function of the frame and the month, and computing it
  again on the frame the first computation left gives the same view and leaves that
  frame as it is. The first computation changes the frame only in the date column: the
  columns and the number and order of the rows are the same, and each row is the row of
  the log with its date cell replaced by the timestamp the cell parses to. An empty
  frame is not changed at all.
\<close>

theorem report_twice:
  assumes "tab2 parse df m = Some (df', v)"
  shows "tab2 parse df' m = Some (df', v) \<and> columns df' = columns df \<and>
         length (rows df') = length (rows df) \<and>
         (if df_empty df then df' = df
          else \<forall>j<length (rows df). \<exists>d. cell_date parse (col_date (rows df ! j)) = Some d \<and>
                 rows df' ! j = (rows df ! j)\<lparr>col_date := Timestamp d\<rparr>)"
proof (cases "df_empty df")
  case True
  with assms have "df' = df" "v = Info"
    by (simp_all add: tab2_def)
  with True show ?thesis
    by (simp add: tab2_def)
next
  case False
  let ?stamp = "\<lambda>(r, d). r\<lparr>col_date := Timestamp d\<rparr>"
  from tab2_SomeD [OF assms False] obtain ds where
    ds: "map (cell_date parse) (map col_date (rows df)) = map Some ds"
    and df': "df' = df\<lparr>rows := map ?stamp (zip (rows df) ds)\<rparr>"
    and v: "v = month_view m (m_df (rows df') m)"
    by blast
  have len: "length ds = length (rows df)"
    using ds by (rule parsed_length)
  have rows': "rows df' = map ?stamp (zip (rows df) ds)" and cols: "columns df' = columns df"
    using df' by simp_all
  have len': "length (rows df') = length (rows df)"
    using rows' len by simp
  have ne': "\<not> df_empty df'"
    using False len' cols by (auto simp: df_empty_def)
  have ds': "map (cell_date parse) (map col_date (rows df')) = map Some ds"
    unfolding rows' using len by (rule stamps_parsed)
  have again: "map ?stamp (zip (rows df') ds) = rows df'"
    unfolding rows' using len by (rule stamps_again)
  have "tab2 parse df' m =
          Some (df'\<lparr>rows := map ?stamp (zip (rows df') ds)\<rparr>,
                month_view m (map ?stamp (filter (\<lambda>(r, d). month d = m) (zip (rows df') ds))))"
    using ds' ne' by (rule tab2_SomeI)
  also have "map ?stamp (filter (\<lambda>(r, d). month d = m) (zip (rows df') ds))
             = m_df (map ?stamp (zip (rows df') ds)) m"
    by (simp only: m_df_stamps)
  finally have twice: "tab2 parse df' m = Some (df', v)"
    using again v by simp
  have "\<forall>j<length (rows df). \<exists>d. cell_date parse (col_date (rows df ! j)) = Some d \<and>
          rows df' ! j = (rows df ! j)\<lparr>col_date := Timestamp d\<rparr>"
    using parsed_nth [OF ds] stamps_nth [OF len] rows' by simp
  with twice cols len' False show ?thesis by simp
qed

theorem report_twice_witness:
  "tab2 to_datetime_ymd (load_df example_sheet) 3 =
     Some (example_frame,
           Metrics 30000 2950 27050
             (Some [((Household, Electricity, Kam), 950), ((Children, Tuition, Xiqing), 2000)])) \<and>
   tab2 to_datetime_ymd example_frame 3 =
     Some (example_frame,
           Metrics 30000 2950 27050
             (Some [((Household, Electricity, Kam), 950), ((Children, Tuition, Xiqing), 2000)])) \<and>
   columns example_frame = columns (load_df example_sheet) \<and>
   length (rows example_frame) = length (rows (load_df example_sheet)) \<and>
   rows example_frame ! 3 = (rows (load_df example_sheet) ! 3)\<lparr>col_date := Timestamp \<lparr>year = 2023, month = 3, day = 7\<rparr>\<rparr>"
proof -
  have "rows example_frame ! 3 =
          (rows (load_df example_sheet) ! 3)\<lparr>col_date := Timestamp \<lparr>year = 2023, month = 3, day = 7\<rparr>\<rparr>"
    by (simp add: example_frame_def load_df_def get_all_records_def DataFrame_def
        example_sheet_def stamp_def)
  with report_twice [OF example_report] example_report show ?thesis by simp
qed

text \<open>
  C10. For income and for expense, and for every member, the default index is computed
  without an exception and lies below the number of main categories of the kind, which
  is not empty: line 90 never passes an index out of range.
\<close>

theorem default_idx_in_bounds:
  assumes "kind = Income \<or> kind = Expense"
  shows "\<exists>am i. available_main kind = Some am \<and> am \<noteq> [] \<and>
           default_idx kind mem = Some i \<and> i < length am"
proof -
  from assms show ?thesis
  proof
    assume k: "kind = Income"
    then show ?thesis
      using Income_neq_Expense by (simp add: default_idx_def available_main_Income)
  next
    assume k: "kind = Expense"
    obtain am where am: "available_main Expense = Some am"
      using available_main_Expense by simp
    have ne: "am \<noteq> []"
      using am by (auto simp: available_main_Expense)
    show ?thesis
    proof (cases "mem \<in> set [Xiqing, Xilang] \<and> Children \<in> set am")
      case True
      from index_Some [of Children am] True obtain i where
        "index am Children = Some i" "i < length am"
        by blast
      with True k am ne show ?thesis by (simp add: default_idx_def)
    next
      case False
      have "default_idx kind mem = Some 0"
        using False k am by (auto simp: default_idx_def)
      with k am ne show ?thesis by simp
    qed
  qed
qed

theorem default_idx_in_bounds_witness:
  "(Expense = Income \<or> Expense = Expense) \<and>
   (\<exists>am i. available_main Expense = Some am \<and> am \<noteq> [] \<and>
      default_idx Expense Xiqing = Some i \<and> i < length am)"
  using default_idx_in_bounds [of Expense Xiqing] by simp

end
